theory Spec2Isabelle
  imports Complex_Main "HOL-Library.Word" "HOL-Library.Log_Nat" "HOL-Library.Sublist"
begin

text \<open>
  A model of the Figma-Tinifier server, an Express application that relays images to
  the Tinify service. The repository holds two versions of it: \<open>server.js\<close>, with one
  compression endpoint whose pipeline is written inside the handler, and a newer
  source with a second, binary endpoint, where both endpoints share the functions
  \<open>compressImage\<close> and \<open>handleCompressionError\<close>. Unless \<open>server.js\<close> is named, the
  definitions below follow the newer source.
\<close>

section \<open>JavaScript values\<close>

text \<open>
  The handlers of the server read the fields of a parsed JSON body (or of a multipart
  form) and test them with JavaScript's truthiness. The values are modelled as they
  arrive: \<open>undefined\<close> for an absent field, \<open>null\<close>, booleans, numbers and strings.
  Arrays and nested objects are not modelled.

  A number is \<open>NaN\<close>, an infinity, or an integer-valued double given by its value;
  \<open>-0\<close> is identified with \<open>0\<close> (both are falsy and both print as \<open>0\<close>). Numbers
  with a fractional part only occur inside \<open>savings\<close> below, as rationals.
  A string is the list of its code units, each below 256.
\<close>

datatype jsnum = NaN | PosInf | NegInf | Num int

datatype jsval = JUndefined | JNull | JBool bool | JNum jsnum | JStr string

text \<open>ToBoolean: \<open>undefined\<close>, \<open>null\<close>, \<open>false\<close>, \<open>0\<close>, \<open>NaN\<close> and \<open>""\<close> are falsy.\<close>

fun truthy :: "jsval \<Rightarrow> bool" where
  "truthy JUndefined = False"
| "truthy JNull = False"
| "truthy (JBool b) = b"
| "truthy (JNum NaN) = False"
| "truthy (JNum (Num n)) = (n \<noteq> 0)"
| "truthy (JNum _) = True"
| "truthy (JStr s) = (s \<noteq> [])"

text \<open>\<open>a || b\<close> and \<open>c ? a : b\<close>.\<close>

definition js_or :: "jsval \<Rightarrow> jsval \<Rightarrow> jsval" where
  "js_or a b = (if truthy a then a else b)"

text \<open>\<open>a === b\<close>: equal types and equal values, \<open>NaN\<close> is not equal to itself.\<close>

definition strict_eq :: "jsval \<Rightarrow> jsval \<Rightarrow> bool" where
  "strict_eq a b = (a = b \<and> a \<noteq> JNum NaN)"

subsection \<open>Double precision\<close>

text \<open>
  Round-to-nearest, ties-to-even, to a 53-bit significand. The exponent range is not
  limited here; callers that can leave the range of a double handle it themselves.
\<close>

definition pow2 :: "int \<Rightarrow> rat" where
  "pow2 e = (if 0 \<le> e then 2 ^ nat e else 1 / 2 ^ nat (- e))"

definition binary_exponent :: "rat \<Rightarrow> int" where
  \<comment> \<open>the \<open>e\<close> with \<open>2^e \<le> |q| < 2^(e+1)\<close>, for \<open>q \<noteq> 0\<close>\<close>
  "binary_exponent q =
     (let (a, b) = quotient_of \<bar>q\<bar>;
          e = bitlen a - bitlen b
      in if pow2 e \<le> \<bar>q\<bar> then e else e - 1)"

definition round_half_even :: "rat \<Rightarrow> int" where
  "round_half_even m =
     (let f = \<lfloor>m\<rfloor>; r = m - of_int f
      in if r < 1 / 2 then f
         else if 1 / 2 < r then f + 1
         else if even f then f else f + 1)"

definition to_double :: "rat \<Rightarrow> rat" where
  "to_double q =
     (if q = 0 then 0
      else let u = pow2 (binary_exponent q - 52)
           in of_int (round_half_even (q / u)) * u)"

subsection \<open>Math.round and the savings percentage\<close>

text \<open>
  \<open>Math.round\<close> returns the nearest integer, the one towards \<open>+\<infinity>\<close> at a tie.
\<close>

definition Math_round :: "rat \<Rightarrow> int" where
  "Math_round x = \<lfloor>x + 1 / 2\<rfloor>"

text \<open>
  \<open>Math.round((1 - compressedLength / originalLength) * 100)\<close>, as both endpoints
  compute it from two buffer lengths. Each of the three operations rounds to a double.
  With \<open>originalLength = 0\<close> the quotient is \<open>Infinity\<close> or \<open>NaN\<close>, and so is the
  result (\<open>1 - Infinity = -Infinity\<close>). Buffer lengths are below \<open>2^53\<close> in Node, so the
  lengths are exact doubles and no operation leaves the exponent range.
\<close>

definition savings :: "nat \<Rightarrow> nat \<Rightarrow> jsnum" where
  "savings compressedLength originalLength =
     (if originalLength = 0 then (if compressedLength = 0 then NaN else NegInf)
      else let q = to_double (of_nat compressedLength / of_nat originalLength);
               d = to_double (1 - q);
               p = to_double (d * 100)
           in Num (Math_round p))"

text \<open>
  The same percentage in exact arithmetic, and a bound on what the three roundings of
  \<open>savings\<close> can add to it or take from it.
\<close>

definition percentage :: "nat \<Rightarrow> nat \<Rightarrow> rat" where
  "percentage compressedLength originalLength =
     (1 - of_nat compressedLength / of_nat originalLength) * 100"

definition rounding_slack :: "nat \<Rightarrow> nat \<Rightarrow> rat" where
  "rounding_slack compressedLength originalLength =
     (300 + 700 * (of_nat compressedLength / of_nat originalLength)) / 2 ^ 53"

section \<open>The runtime and the tinify client\<close>

text \<open>
  \<open>tinify.fromBuffer\<close> starts a request; \<open>resize\<close>, \<open>convert\<close> and \<open>transform\<close>
  each add a command to it; \<open>toBuffer\<close> runs it at the remote service. A source is
  the uploaded bytes with the commands in the order the server called them.
\<close>

type_synonym buffer = "8 word list"

datatype command =
    Resize string jsnum jsnum    \<comment> \<open>\<open>resize({method, width, height})\<close>\<close>
  | Convert string               \<comment> \<open>\<open>convert({type})\<close>\<close>
  | Transform jsval              \<comment> \<open>\<open>transform({background})\<close>\<close>

record tinify_source =
  input :: buffer
  commands :: "command list"

definition fromBuffer :: "buffer \<Rightarrow> tinify_source" where
  "fromBuffer b = \<lparr>input = b, commands = []\<rparr>"

definition resize :: "tinify_source \<Rightarrow> string \<Rightarrow> jsnum \<Rightarrow> jsnum \<Rightarrow> tinify_source" where
  "resize src method w h = src\<lparr>commands := commands src @ [Resize method w h]\<rparr>"

definition convert :: "tinify_source \<Rightarrow> string \<Rightarrow> tinify_source" where
  "convert src type = src\<lparr>commands := commands src @ [Convert type]\<rparr>"

definition transform :: "tinify_source \<Rightarrow> jsval \<Rightarrow> tinify_source" where
  "transform src bg = src\<lparr>commands := commands src @ [Transform bg]\<rparr>"

text \<open>An error object, as thrown by tinify or by Node: \<open>error.status\<close>, \<open>error.message\<close>.\<close>

record js_error =
  status :: jsval
  message :: jsval

text \<open>
  What the server does not contain is a parameter:
  \<^item> the remote service behind \<open>toBuffer\<close> and \<open>validate\<close>, a transition on a state
    \<open>'s\<close> that holds everything the tinify module and the service remember, the
    monthly counter included, and the module's \<open>compressionCount\<close> property read
    from that state;
  \<^item> Node's base64 codec, and the \<open>TypeError\<close> that \<open>Buffer.from\<close> throws for a value
    that is not a string;
  \<^item> the built-in \<open>parseInt\<close>;
  \<^item> the numeral that \<open>Number.prototype.toString\<close> prints for an integer beyond
    \<open>2^53\<close> (the shortest digits that read back as the same double, in exponent
    notation from \<open>10^21\<close> on);
  \<^item> the message of the \<open>TypeError\<close> that Node throws when a header value has a
    character it does not allow.
\<close>

record 's env =
  tinify_toBuffer :: "tinify_source \<Rightarrow> 's \<Rightarrow> (js_error + buffer) \<times> 's"
  tinify_validate :: "'s \<Rightarrow> js_error option \<times> 's"
  tinify_compressionCount :: "'s \<Rightarrow> jsval"
  base64_decode :: "string \<Rightarrow> buffer"
  base64_encode :: "buffer \<Rightarrow> string"
  buffer_type_error :: "jsval \<Rightarrow> js_error"
  parseInt :: "jsval \<Rightarrow> jsnum"
  large_number_string :: "int \<Rightarrow> string"
  header_error_message :: "string \<Rightarrow> string"

definition Buffer_from_base64 :: "'s env \<Rightarrow> jsval \<Rightarrow> js_error + buffer" where
  "Buffer_from_base64 env v =
     (case v of JStr s \<Rightarrow> Inr (base64_decode env s) | _ \<Rightarrow> Inl (buffer_type_error env v))"

subsection \<open>ToString\<close>

definition digit_char :: "nat \<Rightarrow> char" where
  "digit_char d = ''0123456789'' ! d"

text \<open>The decimal digits of \<open>n\<close>, least significant first, put in front of \<open>acc\<close>.\<close>

fun decimal_digits :: "nat \<Rightarrow> string \<Rightarrow> string" where
  "decimal_digits n acc =
     (if n div 10 = 0 then digit_char (n mod 10) # acc
      else decimal_digits (n div 10) (digit_char (n mod 10) # acc))"

declare decimal_digits.simps [simp del]

definition decimal :: "nat \<Rightarrow> string" where
  "decimal n = decimal_digits n []"

text \<open>
  Number::toString. Every integer up to \<open>2^53\<close> in magnitude is a double and prints as
  its decimal numeral; for a larger one the numeral is \<open>large\<close>'s.
\<close>

fun number_string :: "(int \<Rightarrow> string) \<Rightarrow> jsnum \<Rightarrow> string" where
  "number_string large NaN = ''NaN''"
| "number_string large PosInf = ''Infinity''"
| "number_string large NegInf = ''-Infinity''"
| "number_string large (Num n) =
     (if \<bar>n\<bar> \<le> 9007199254740992
      then (if n < 0 then ''-'' @ decimal (nat (- n)) else decimal (nat n))
      else large n)"

fun string_of :: "(int \<Rightarrow> string) \<Rightarrow> jsval \<Rightarrow> string" where
  "string_of large JUndefined = ''undefined''"
| "string_of large JNull = ''null''"
| "string_of large (JBool b) = (if b then ''true'' else ''false'')"
| "string_of large (JNum n) = number_string large n"
| "string_of large (JStr s) = s"

definition number_to_string :: "'s env \<Rightarrow> jsnum \<Rightarrow> string" where
  "number_to_string env n = number_string (large_number_string env) n"

definition to_string :: "'s env \<Rightarrow> jsval \<Rightarrow> string" where
  "to_string env v = string_of (large_number_string env) v"

section \<open>The shared pipeline (compressImage)\<close>

record options =
  format :: jsval
  width :: jsval
  height :: jsval
  background :: jsval

text \<open>
  The body of \<open>compressImage\<close> up to the \<open>await\<close>: the source it has built and the
  \<open>outputFormat\<close> it will return.
\<close>

definition compressImage_request :: "'s env \<Rightarrow> buffer \<Rightarrow> options \<Rightarrow> tinify_source \<times> jsval" where
  "compressImage_request env imageBuffer opts =
     (let source = fromBuffer imageBuffer;
          result = source;
          result = (if truthy (width opts) \<or> truthy (height opts)
                    then resize result ''fit''
                           (if truthy (width opts) then parseInt env (width opts) else Num 9999)
                           (if truthy (height opts) then parseInt env (height opts) else Num 9999)
                    else result);
          outputFormat = js_or (format opts) (JStr ''png'');
          result = (if \<not> strict_eq outputFormat (JStr ''png'')
                    then convert result
                           (''image/'' @ to_string env (if strict_eq outputFormat (JStr ''jpg'')
                                                       then JStr ''jpeg'' else outputFormat))
                    else result);
          result = (if strict_eq outputFormat (JStr ''jpeg'') \<or> strict_eq outputFormat (JStr ''jpg'')
                    then transform result (js_or (background opts) (JStr ''white''))
                    else result)
      in (result, outputFormat))"

text \<open>\<open>compressImage\<close> returns \<open>{buffer, format}\<close>, here a pair, or throws.\<close>

definition compressImage ::
  "'s env \<Rightarrow> buffer \<Rightarrow> options \<Rightarrow> 's \<Rightarrow> (js_error + buffer \<times> jsval) \<times> 's" where
  "compressImage env imageBuffer opts s =
     (let (result, outputFormat) = compressImage_request env imageBuffer opts
      in case tinify_toBuffer env result s of
           (Inl error, s') \<Rightarrow> (Inl error, s')
         | (Inr compressedBuffer, s') \<Rightarrow> (Inr (compressedBuffer, outputFormat), s'))"

section \<open>Responses and the error classifier\<close>

datatype body = Json "(string \<times> jsval) list" | Binary buffer

text \<open>
  A response: the status code, the headers the handler has set with \<open>res.set\<close>, and
  the body (the object given to \<open>res.json\<close>, fields in source order, or the bytes
  given to \<open>res.send\<close>). \<open>res.json\<close> without \<open>res.status\<close> answers 200. What Express
  adds or rewrites by itself when it sends (the length, the JSON content type, a
  charset) is not part of the model.
\<close>

record response =
  statusCode :: nat
  headers :: "(string \<times> string) list"
  body :: body

definition json_response :: "nat \<Rightarrow> (string \<times> jsval) list \<Rightarrow> response" where
  "json_response code obj = \<lparr>statusCode = code, headers = [], body = Json obj\<rparr>"

definition handleCompressionError :: "js_error \<Rightarrow> response" where
  "handleCompressionError error =
     (if strict_eq (status error) (JNum (Num 401)) then
        json_response 401
          [(''error'', JStr ''Invalid API key''),
           (''message'', JStr ''Check your TINIFY_API_KEY in .env file'')]
      else if strict_eq (status error) (JNum (Num 429)) then
        json_response 429
          [(''error'', JStr ''Rate limited''),
           (''message'', JStr ''Monthly compression limit reached (500 for free tier)'')]
      else
        json_response 500
          [(''error'', JStr ''Compression failed''),
           (''message'', message error)])"

subsection \<open>res.set\<close>

text \<open>
  \<open>res.set(obj)\<close> sets the headers of \<open>obj\<close> one after the other, in the order of
  the object literal, each through Node's \<open>setHeader\<close>. Node allows in a header value
  the tab and the code units from \<open>0x20\<close> to \<open>0x7e\<close> and from \<open>0x80\<close> to \<open>0xff\<close>,
  and throws a \<open>TypeError\<close> (which has no \<open>status\<close>) at the first value with another
  character; the headers set before it stay set. The result is the error, if one was
  thrown, and the headers that are set.
\<close>

definition valid_header_char :: "char \<Rightarrow> bool" where
  "valid_header_char c =
     (let k = (of_char c :: nat) in k = 9 \<or> (32 \<le> k \<and> k \<le> 126) \<or> 128 \<le> k)"

definition invalid_header_error :: "'s env \<Rightarrow> string \<Rightarrow> js_error" where
  "invalid_header_error env name =
     \<lparr>status = JUndefined, message = JStr (header_error_message env name)\<rparr>"

fun res_set ::
  "'s env \<Rightarrow> (string \<times> string) list \<Rightarrow> (string \<times> string) list
     \<Rightarrow> js_error option \<times> (string \<times> string) list" where
  "res_set env hs [] = (None, hs)"
| "res_set env hs ((name, v) # rest) =
     (if list_all valid_header_char v then res_set env (hs @ [(name, v)]) rest
      else (Some (invalid_header_error env name), hs))"

section \<open>The endpoints\<close>

subsection \<open>GET /api/status\<close>

definition status_handler :: "'s env \<Rightarrow> 's \<Rightarrow> response \<times> 's" where
  "status_handler env s =
     (case tinify_validate env s of
        (None, s') \<Rightarrow>
          (json_response 200
             [(''status'', JStr ''ok''),
              (''compressionCount'', js_or (tinify_compressionCount env s') (JNum (Num 0))),
              (''message'', JStr ''API key validated successfully'')], s')
      | (Some error, s') \<Rightarrow>
          (json_response 401
             [(''status'', JStr ''error''),
              (''error'', JStr ''Invalid API key''),
              (''message'', message error)], s'))"

subsection \<open>POST /api/compress\<close>

text \<open>
  The handler destructures \<open>image\<close>, \<open>format\<close>, \<open>width\<close>, \<open>height\<close> and
  \<open>background\<close> from the parsed body; the model takes \<open>image\<close> (as \<open>img\<close>) and the
  other four (which it passes on unchanged as the options) as two arguments.
\<close>

definition missing_image_json :: response where
  "missing_image_json =
     json_response 400
       [(''error'', JStr ''Missing image data''),
        (''message'', JStr ''Please provide base64-encoded image data'')]"

definition compress_handler :: "'s env \<Rightarrow> jsval \<Rightarrow> options \<Rightarrow> 's \<Rightarrow> response \<times> 's" where
  "compress_handler env img opts s =
     (if \<not> truthy img then (missing_image_json, s)
      else case Buffer_from_base64 env img of
             Inl error \<Rightarrow> (handleCompressionError error, s)
           | Inr imageBuffer \<Rightarrow>
               (case compressImage env imageBuffer opts s of
                  (Inl error, s') \<Rightarrow> (handleCompressionError error, s')
                | (Inr (buffer, fmt), s') \<Rightarrow>
                    (json_response 200
                       [(''success'', JBool True),
                        (''data'', JStr (base64_encode env buffer)),
                        (''originalSize'', JNum (Num (int (length imageBuffer)))),
                        (''compressedSize'', JNum (Num (int (length buffer)))),
                        (''savings'', JNum (savings (length buffer) (length imageBuffer))),
                        (''compressionCount'', tinify_compressionCount env s')], s')))"

subsection \<open>POST /api/compress/binary\<close>

text \<open>
  \<open>req.file\<close> is the uploaded file, if the form had one; its buffer is the image. The
  form's text fields are the options. \<open>res.set\<close> is inside the \<open>try\<close>: when it
  throws, the \<open>catch\<close> answers through \<open>handleCompressionError\<close> on the same response
  object, which keeps the headers set before the throw.
\<close>

definition missing_image_binary :: response where
  "missing_image_binary =
     json_response 400
       [(''error'', JStr ''Missing image data''),
        (''message'', JStr ''Please provide image file'')]"

definition compress_binary_handler ::
  "'s env \<Rightarrow> buffer option \<Rightarrow> options \<Rightarrow> 's \<Rightarrow> response \<times> 's" where
  "compress_binary_handler env file opts s =
     (case file of
        None \<Rightarrow> (missing_image_binary, s)
      | Some imageBuffer \<Rightarrow>
          (case compressImage env imageBuffer opts s of
             (Inl error, s') \<Rightarrow> (handleCompressionError error, s')
           | (Inr (buffer, fmt), s') \<Rightarrow>
               (case res_set env []
                       [(''Content-Type'', ''image/'' @ to_string env fmt),
                        (''X-Original-Size'',
                           number_to_string env (Num (int (length imageBuffer)))),
                        (''X-Compressed-Size'',
                           number_to_string env (Num (int (length buffer)))),
                        (''X-Savings'',
                           number_to_string env (savings (length buffer) (length imageBuffer))),
                        (''X-Compression-Count'',
                           to_string env (js_or (tinify_compressionCount env s') (JNum (Num 0))))] of
                  (None, hs) \<Rightarrow> (\<lparr>statusCode = 200, headers = hs, body = Binary buffer\<rparr>, s')
                | (Some error, hs) \<Rightarrow> ((handleCompressionError error)\<lparr>headers := hs\<rparr>, s'))))"

subsection \<open>POST /api/compress in server.js\<close>

text \<open>
  The older file has one compression endpoint, with the pipeline and the error
  handling written inside the handler. \<open>server_js_request\<close> is the source it has
  built when it reaches the \<open>await\<close>.
\<close>

definition server_js_request ::
  "'s env \<Rightarrow> buffer \<Rightarrow> jsval \<Rightarrow> jsval \<Rightarrow> jsval \<Rightarrow> jsval \<Rightarrow> tinify_source" where
  "server_js_request env imageBuffer fmt w h bg =
     (let source = fromBuffer imageBuffer;
          result = source;
          result = (if truthy w \<or> truthy h
                    then resize result ''fit''
                           (if truthy w then parseInt env w else Num 9999)
                           (if truthy h then parseInt env h else Num 9999)
                    else result);
          outputFormat = js_or fmt (JStr ''png'');
          result = (if \<not> strict_eq outputFormat (JStr ''png'')
                    then convert result
                           (''image/'' @ to_string env (if strict_eq outputFormat (JStr ''jpg'')
                                                       then JStr ''jpeg'' else outputFormat))
                    else result);
          result = (if strict_eq outputFormat (JStr ''jpeg'') \<or> strict_eq outputFormat (JStr ''jpg'')
                    then transform result (js_or bg (JStr ''white''))
                    else result)
      in result)"

definition server_js_catch :: "js_error \<Rightarrow> response" where
  "server_js_catch error =
     (if strict_eq (status error) (JNum (Num 401)) then
        json_response 401
          [(''error'', JStr ''Invalid API key''),
           (''message'', JStr ''Check your TINIFY_API_KEY in .env file'')]
      else if strict_eq (status error) (JNum (Num 429)) then
        json_response 429
          [(''error'', JStr ''Rate limited''),
           (''message'', JStr ''Monthly compression limit reached (500 for free tier)'')]
      else
        json_response 500
          [(''error'', JStr ''Compression failed''),
           (''message'', message error)])"

definition server_js_compress_handler ::
  "'s env \<Rightarrow> jsval \<Rightarrow> options \<Rightarrow> 's \<Rightarrow> response \<times> 's" where
  "server_js_compress_handler env img opts s =
     (if \<not> truthy img then (missing_image_json, s)
      else case Buffer_from_base64 env img of
             Inl error \<Rightarrow> (server_js_catch error, s)
           | Inr imageBuffer \<Rightarrow>
               (case tinify_toBuffer env
                       (server_js_request env imageBuffer (format opts) (width opts)
                          (height opts) (background opts)) s of
                  (Inl error, s') \<Rightarrow> (server_js_catch error, s')
                | (Inr compressedBuffer, s') \<Rightarrow>
                    (json_response 200
                       [(''success'', JBool True),
                        (''data'', JStr (base64_encode env compressedBuffer)),
                        (''originalSize'', JNum (Num (int (length imageBuffer)))),
                        (''compressedSize'', JNum (Num (int (length compressedBuffer)))),
                        (''savings'', JNum (savings (length compressedBuffer) (length imageBuffer))),
                        (''compressionCount'', tinify_compressionCount env s')], s')))"

section \<open>Reading requests and responses\<close>

definition json_field :: "response \<Rightarrow> string \<Rightarrow> jsval option" where
  "json_field r k = (case body r of Json obj \<Rightarrow> map_of obj k | Binary _ \<Rightarrow> None)"

definition header :: "response \<Rightarrow> string \<Rightarrow> string option" where
  "header r k = map_of (headers r) k"



fun is_convert :: "command \<Rightarrow> bool" where
  "is_convert (Convert _) = True"
| "is_convert _ = False"



section \<open>Environments for running the handlers\<close>

text \<open>
  \<open>counting env\<close> is \<open>env\<close> with a counter of the calls that reach the remote
  service, kept beside the state.
\<close>

definition counting :: "'s env \<Rightarrow> ('s \<times> nat) env" where
  "counting env =
     \<lparr>tinify_toBuffer =
        (\<lambda>src (s, n). case tinify_toBuffer env src s of (r, s') \<Rightarrow> (r, (s', Suc n))),
      tinify_validate =
        (\<lambda>(s, n). case tinify_validate env s of (r, s') \<Rightarrow> (r, (s', Suc n))),
      tinify_compressionCount = (\<lambda>(s, n). tinify_compressionCount env s),
      base64_decode = base64_decode env,
      base64_encode = base64_encode env,
      buffer_type_error = buffer_type_error env,
      parseInt = parseInt env,
      large_number_string = large_number_string env,
      header_error_message = header_error_message env\<rparr>"

subsection \<open>A base64 codec\<close>

text \<open>
  Base64 of RFC 4648; the decoder skips characters outside the alphabet and stops at
  the padding.
\<close>

definition sextet_char :: "nat \<Rightarrow> char" where
  "sextet_char n =
     ''ABCDEFGHIJKLMNOPQRSTUVWXYZabcdefghijklmnopqrstuvwxyz0123456789+/'' ! n"

fun encode_triples :: "nat list \<Rightarrow> string" where
  "encode_triples (a # b # c # rest) =
     [sextet_char (a div 4), sextet_char ((a mod 4) * 16 + b div 16),
      sextet_char ((b mod 16) * 4 + c div 64), sextet_char (c mod 64)] @ encode_triples rest"
| "encode_triples [a, b] =
     [sextet_char (a div 4), sextet_char ((a mod 4) * 16 + b div 16),
      sextet_char ((b mod 16) * 4), CHR ''='']"
| "encode_triples [a] =
     [sextet_char (a div 4), sextet_char ((a mod 4) * 16), CHR ''='', CHR ''='']"
| "encode_triples [] = []"

definition char_sextet :: "char \<Rightarrow> nat option" where
  "char_sextet c =
     (let k = (of_char c :: nat)
      in if 65 \<le> k \<and> k \<le> 90 then Some (k - 65)
         else if 97 \<le> k \<and> k \<le> 122 then Some (k - 71)
         else if 48 \<le> k \<and> k \<le> 57 then Some (k + 4)
         else if c = CHR ''+'' then Some 62
         else if c = CHR ''/'' then Some 63
         else None)"

fun decode_quads :: "nat list \<Rightarrow> nat list" where
  "decode_quads (a # b # c # d # rest) =
     [a * 4 + b div 16, (b mod 16) * 16 + c div 4, (c mod 4) * 64 + d] @ decode_quads rest"
| "decode_quads [a, b, c] = [a * 4 + b div 16, (b mod 16) * 16 + c div 4]"
| "decode_quads [a, b] = [a * 4 + b div 16]"
| "decode_quads _ = []"

definition rfc4648_encode :: "buffer \<Rightarrow> string" where
  "rfc4648_encode b = encode_triples (map unat b)"

definition rfc4648_decode :: "string \<Rightarrow> buffer" where
  "rfc4648_decode s =
     map of_nat (decode_quads (List.map_filter char_sextet (takeWhile (\<lambda>c. c \<noteq> CHR ''='') s)))"

subsection \<open>Numerals beyond \<open>2^53\<close>\<close>

text \<open>
  The numeral of a positive integer-valued double \<open>x\<close>: the decimal with the fewest
  significant digits that rounds to \<open>x\<close>, the nearest to \<open>x\<close> if there are two (the
  one with an even last digit at a tie); written out with its zeros below \<open>10^21\<close> and
  in exponent notation from there on. \<open>shortest_from j x\<close> tries the multiples of
  \<open>10^j\<close> on both sides of \<open>x\<close>, then of \<open>10^(j-1)\<close>, down to \<open>x\<close> itself.
\<close>

fun shortest_from :: "nat \<Rightarrow> int \<Rightarrow> int" where
  "shortest_from 0 x = x"
| "shortest_from (Suc j) x =
     (let u = 10 ^ Suc j;
          lo = (x div u) * u;
          hi = lo + u;
          lo_ok = (to_double (of_int lo) = of_int x);
          hi_ok = (to_double (of_int hi) = of_int x)
      in if lo_ok \<and> hi_ok then
           (if x - lo < hi - x then lo
            else if hi - x < x - lo then hi
            else if even (lo div u) then lo else hi)
         else if lo_ok then lo
         else if hi_ok then hi
         else shortest_from j x)"

definition exponent_form :: "int \<Rightarrow> string" where
  "exponent_form c =
     (let ds = decimal (nat c);
          n = length ds
      in if n \<le> 21 then ds
         else case rev (dropWhile (\<lambda>d. d = CHR ''0'') (rev ds)) of
                [] \<Rightarrow> ds
              | d # rest \<Rightarrow>
                  d # (if rest = [] then [] else CHR ''.'' # rest) @ ''e+'' @ decimal (n - 1))"

definition shortest_number_string :: "int \<Rightarrow> string" where
  "shortest_number_string n =
     (if n < 0 then ''-'' else []) @
     exponent_form (shortest_from (length (decimal (nat \<bar>n\<bar>)) - 1) \<bar>n\<bar>)"

subsection \<open>A parseInt\<close>

text \<open>
  \<open>parseInt(v)\<close> with no radix: the argument is converted to a string, leading white
  space and a sign are removed, a \<open>0x\<close> prefix selects radix 16, and the longest prefix
  of digits is the value, rounded to a double; no digit gives \<open>NaN\<close>. The white space
  is the one that fits in a code unit below 256.
\<close>

definition is_white_space :: "char \<Rightarrow> bool" where
  "is_white_space c = ((of_char c :: nat) \<in> set [9, 10, 11, 12, 13, 32, 160])"

definition digit_value :: "char \<Rightarrow> int option" where
  "digit_value c =
     (let k = (of_char c :: int)
      in if 48 \<le> k \<and> k \<le> 57 then Some (k - 48)
         else if 97 \<le> k \<and> k \<le> 122 then Some (k - 87)
         else if 65 \<le> k \<and> k \<le> 90 then Some (k - 55)
         else None)"

definition radix_digit :: "int \<Rightarrow> char \<Rightarrow> bool" where
  "radix_digit R c = (case digit_value c of Some d \<Rightarrow> d < R | None \<Rightarrow> False)"

definition digits_value :: "int \<Rightarrow> string \<Rightarrow> int" where
  "digits_value R Z =
     foldl (\<lambda>a c. case digit_value c of Some d \<Rightarrow> a * R + d | None \<Rightarrow> a) 0 Z"

definition number_of_int :: "int \<Rightarrow> jsnum" where
  \<comment> \<open>the double nearest to an integer; beyond the largest double it is an infinity\<close>
  "number_of_int n =
     (let d = \<lfloor>to_double (of_int n)\<rfloor>
      in if 2 ^ 1024 \<le> d then PosInf else if d \<le> - (2 ^ 1024) then NegInf else Num d)"

definition parseInt_string :: "string \<Rightarrow> jsnum" where
  "parseInt_string inputString =
     (let S = dropWhile is_white_space inputString;
          sign = (if S \<noteq> [] \<and> hd S = CHR ''-'' then - 1 else 1 :: int);
          S = (if S \<noteq> [] \<and> (hd S = CHR ''+'' \<or> hd S = CHR ''-'') then tl S else S);
          hex = (2 \<le> length S \<and> (take 2 S = ''0x'' \<or> take 2 S = ''0X''));
          R = (if hex then 16 else 10);
          S = (if hex then drop 2 S else S);
          Z = takeWhile (radix_digit R) S
      in if Z = [] then NaN else number_of_int (sign * digits_value R Z))"

definition ecma_parseInt :: "jsval \<Rightarrow> jsnum" where
  "ecma_parseInt v = parseInt_string (string_of shortest_number_string v)"

subsection \<open>A stub of the service\<close>

text \<open>
  A small service to run the handlers against: it rejects every call when the key is
  not valid, rejects an empty upload, and otherwise answers with the leading part of
  the input, \<open>ratio\<close> of its length. It records the sources it has processed, and
  counts them once the count is set.
\<close>

record service =
  key_valid :: bool
  ratio :: "nat \<times> nat"
  received :: "tinify_source list"
  used :: "nat option"

definition unauthorized :: js_error where
  "unauthorized = \<lparr>status = JNum (Num 401), message = JStr ''Credentials are invalid.''\<rparr>"

definition stub_env :: "service env" where
  "stub_env =
     \<lparr>tinify_toBuffer =
        (\<lambda>src st.
           if \<not> key_valid st then (Inl unauthorized, st)
           else if input src = [] then
             (Inl \<lparr>status = JNum (Num 400), message = JStr ''Input file is empty.''\<rparr>, st)
           else (Inr (take (length (input src) * fst (ratio st) div snd (ratio st)) (input src)),
                 st\<lparr>received := received st @ [src], used := map_option Suc (used st)\<rparr>)),
      tinify_validate = (\<lambda>st. if key_valid st then (None, st) else (Some unauthorized, st)),
      tinify_compressionCount =
        (\<lambda>st. case used st of None \<Rightarrow> JUndefined | Some n \<Rightarrow> JNum (Num (int n))),
      base64_decode = rfc4648_decode,
      base64_encode = rfc4648_encode,
      buffer_type_error =
        (\<lambda>v. \<lparr>status = JUndefined,
               message = JStr ''The first argument must be of type string''\<rparr>),
      parseInt = ecma_parseInt,
      large_number_string = shortest_number_string,
      header_error_message =
        (\<lambda>name. ''Invalid character in header content ['' @ [CHR 0x22] @ name @ [CHR 0x22] @ '']'')\<rparr>"

definition fresh :: service where
  "fresh = \<lparr>key_valid = True, ratio = (1, 2), received = [], used = None\<rparr>"

section \<open>Properties of the pipeline\<close>

lemma strict_eq_JStr [simp]: "strict_eq v (JStr t) = (v = JStr t)"
  by (auto simp: strict_eq_def)

lemma compressImage_request_format:
  "snd (compressImage_request env b opts) = js_or (format opts) (JStr ''png'')"
  by (simp add: compressImage_request_def Let_def)

lemma compressImage_request_input:
  "input (fst (compressImage_request env b opts)) = b"
  by (simp add: compressImage_request_def Let_def fromBuffer_def resize_def convert_def
      transform_def)

lemma compressImage_request_commands:
  "commands (fst (compressImage_request env b opts)) =
     (if truthy (width opts) \<or> truthy (height opts)
      then [Resize ''fit''
              (if truthy (width opts) then parseInt env (width opts) else Num 9999)
              (if truthy (height opts) then parseInt env (height opts) else Num 9999)]
      else []) @
     (if js_or (format opts) (JStr ''png'') \<noteq> JStr ''png''
      then [Convert (''image/'' @ to_string env (if js_or (format opts) (JStr ''png'') = JStr ''jpg''
                                                then JStr ''jpeg''
                                                else js_or (format opts) (JStr ''png'')))]
      else []) @
     (if js_or (format opts) (JStr ''png'') = JStr ''jpeg''
         \<or> js_or (format opts) (JStr ''png'') = JStr ''jpg''
      then [Transform (js_or (background opts) (JStr ''white''))]
      else [])"
  by (simp add: compressImage_request_def Let_def fromBuffer_def resize_def convert_def
      transform_def)

lemma compressImage_unfold:
  "compressImage env b opts s =
     (case tinify_toBuffer env (fst (compressImage_request env b opts)) s of
        (Inl error, s') \<Rightarrow> (Inl error, s')
      | (Inr out, s') \<Rightarrow> (Inr (out, js_or (format opts) (JStr ''png'')), s'))"
  by (simp add: compressImage_def compressImage_request_format split_beta)

lemma to_string_JStr [simp]: "to_string env (JStr t) = t"
  by (simp add: to_string_def)







section \<open>The error of the double arithmetic\<close>

lemma pow2_powi: "pow2 e = 2 powi e"
  by (simp add: pow2_def power_int_def inverse_eq_divide power_one_over)

lemma pow2_pos: "0 < pow2 e"
  by (simp add: pow2_powi)

lemma pow2_diff: "pow2 (a - b) = pow2 a / pow2 b"
  by (simp add: pow2_powi power_int_diff)

lemma pow2_nat: "0 \<le> e \<Longrightarrow> pow2 e = 2 ^ nat e"
  by (simp add: pow2_def)

lemma binary_exponent_le:
  assumes "q \<noteq> 0"
  shows "pow2 (binary_exponent q) \<le> \<bar>q\<bar>"
proof -
  obtain a b where ab: "quotient_of \<bar>q\<bar> = (a, b)"
    by (cases "quotient_of \<bar>q\<bar>")
  have bpos: "0 < b" using ab by (rule quotient_of_denom_pos)
  have qab: "\<bar>q\<bar> = of_int a / of_int b" using ab by (rule quotient_of_div)
  have "0 < \<bar>q\<bar>" using assms by simp
  then have apos: "0 < a"
    using bpos unfolding qab by (simp add: zero_less_divide_iff)
  define e where "e = bitlen a - bitlen b"
  have be: "binary_exponent q = (if pow2 e \<le> \<bar>q\<bar> then e else e - 1)"
    by (simp add: binary_exponent_def ab e_def Let_def)
  show ?thesis
  proof (cases "pow2 e \<le> \<bar>q\<bar>")
    case True
    then show ?thesis by (simp add: be)
  next
    case False
    have la: "2 ^ nat (bitlen a - 1) \<le> a" using bitlen_bounds [OF apos] by simp
    have lb: "b < 2 ^ nat (bitlen b)" using bitlen_bounds [OF bpos] by simp
    have la1: "1 \<le> bitlen a" using apos bitlen_bounds [OF apos]
      by (smt (verit) bitlen_nonneg bitlen_eq_zero_iff)
    have lb0: "0 \<le> bitlen b" by (rule bitlen_nonneg)
    have A: "pow2 (bitlen a - 1) \<le> of_int a"
    proof -
      have "pow2 (bitlen a - 1) = of_int (2 ^ nat (bitlen a - 1))"
        using la1 by (simp add: pow2_nat)
      also have "\<dots> \<le> of_int a" using la by (simp only: of_int_le_iff)
      finally show ?thesis .
    qed
    have B: "of_int b \<le> pow2 (bitlen b)"
    proof -
      from lb have "b \<le> 2 ^ nat (bitlen b)" by simp
      then have "(of_int b :: rat) \<le> of_int (2 ^ nat (bitlen b))"
        by (simp only: of_int_le_iff)
      also have "\<dots> = pow2 (bitlen b)" using lb0 by (simp add: pow2_nat)
      finally show ?thesis .
    qed
    have "pow2 (e - 1) = pow2 (bitlen a - 1) / pow2 (bitlen b)"
      unfolding e_def using pow2_diff [of "bitlen a - 1" "bitlen b"] by (simp add: algebra_simps)
    also have "\<dots> \<le> of_int a / pow2 (bitlen b)"
      using A pow2_pos [of "bitlen b"] by (simp add: divide_right_mono)
    also have "\<dots> \<le> of_int a / of_int b"
      using B bpos apos by (simp add: frac_le)
    finally show ?thesis using False by (simp add: be qab)
  qed
qed

lemma round_half_even_error: "\<bar>of_int (round_half_even m) - m\<bar> \<le> 1 / 2"
proof -
  define f where "f = \<lfloor>m\<rfloor>"
  have b: "of_int f \<le> m" "m < of_int f + 1"
    unfolding f_def by linarith+
  have r: "round_half_even m =
      (if m - of_int f < 1 / 2 then f
       else if 1 / 2 < m - of_int f then f + 1
       else if even f then f else f + 1)"
    by (simp add: round_half_even_def Let_def f_def)
  show ?thesis
    using b unfolding r by (auto simp: abs_le_iff)
qed

text \<open>A rounding to a double moves a number by at most \<open>2^-53\<close> of its magnitude.\<close>

lemma to_double_error: "\<bar>to_double q - q\<bar> \<le> \<bar>q\<bar> / 2 ^ 53"
proof (cases "q = 0")
  case True
  then show ?thesis by (simp add: to_double_def)
next
  case False
  define u where "u = pow2 (binary_exponent q - 52)"
  have upos: "0 < u" by (simp add: u_def pow2_pos)
  have td: "to_double q = of_int (round_half_even (q / u)) * u"
    using False by (simp add: to_double_def u_def Let_def)
  have "to_double q - q = (of_int (round_half_even (q / u)) - q / u) * u"
    using upos by (simp add: td algebra_simps)
  then have "\<bar>to_double q - q\<bar> = \<bar>of_int (round_half_even (q / u)) - q / u\<bar> * u"
    using upos by (simp add: abs_mult)
  also have "\<dots> \<le> (1 / 2) * u"
    using round_half_even_error [of "q / u"] upos by (simp add: mult_right_mono)
  also have "\<dots> = pow2 (binary_exponent q) / 2 ^ 53"
    by (simp add: u_def pow2_diff pow2_nat)
  also have "\<dots> \<le> \<bar>q\<bar> / 2 ^ 53"
    using binary_exponent_le [OF False] by (simp add: divide_right_mono)
  finally show ?thesis .
qed

lemma savings_double_error:
  fixes t :: rat
  assumes t: "0 \<le> t"
  shows "\<bar>to_double (to_double (1 - to_double t) * 100) - (1 - t) * 100\<bar>
           \<le> (300 + 700 * t) / 2 ^ 53"
proof -
  define q where "q = to_double t"
  define d where "d = to_double (1 - q)"
  define p where "p = to_double (d * 100)"
  define w :: rat where "w = 1 / 2 ^ 53"
  define e where "e = t * w"
  have w: "0 < w" "w \<le> 1" by (simp_all add: w_def)
  have e: "0 \<le> e" "e \<le> t"
    using t w by (simp_all add: e_def mult_left_le)
  have a1: "\<bar>q - t\<bar> \<le> e"
    using to_double_error [of t] t by (simp add: q_def e_def w_def)
  have a2: "\<bar>d - (1 - q)\<bar> \<le> \<bar>1 - q\<bar> * w"
    using to_double_error [of "1 - q"] by (simp add: d_def w_def)
  have a3: "\<bar>p - d * 100\<bar> \<le> \<bar>d * 100\<bar> * w"
    using to_double_error [of "d * 100"] by (simp add: p_def w_def)
  have q2: "0 \<le> q" "q \<le> 2 * t"
    using a1 e by linarith+
  have b1: "\<bar>1 - q\<bar> \<le> 1 + 2 * t"
    using q2 by linarith
  have "\<bar>1 - q\<bar> * w \<le> (1 + 2 * t) * w"
    using b1 w by (simp add: mult_right_mono)
  with a2 have b2: "\<bar>d - (1 - q)\<bar> \<le> w + 2 * e"
    by (simp add: e_def algebra_simps)
  have b3: "\<bar>d - (1 - t)\<bar> \<le> w + 3 * e"
    using b2 a1 by linarith
  have b4: "\<bar>d\<bar> \<le> 2 + 4 * t"
    using b3 t w e by linarith
  have b5: "\<bar>d * 100\<bar> \<le> 200 + 400 * t"
    using b4 by linarith
  have "\<bar>d * 100\<bar> * w \<le> (200 + 400 * t) * w"
    using b5 w by (simp add: mult_right_mono)
  with a3 have b6: "\<bar>p - d * 100\<bar> \<le> 200 * w + 400 * e"
    by (simp add: e_def algebra_simps)
  have c6: "p - d * 100 \<le> 200 * w + 400 * e" "d * 100 - p \<le> 200 * w + 400 * e"
    using b6 by linarith+
  have c3: "d - (1 - t) \<le> w + 3 * e" "(1 - t) - d \<le> w + 3 * e"
    using b3 by linarith+
  have up: "p - (1 - t) * 100 \<le> 300 * w + 700 * e"
    using c6(1) c3(1) by (simp add: algebra_simps)
  have down: "(1 - t) * 100 - p \<le> 300 * w + 700 * e"
    using c6(2) c3(2) by (simp add: algebra_simps)
  from up down have "\<bar>p - (1 - t) * 100\<bar> \<le> 300 * w + 700 * e"
    by (simp add: abs_le_iff)
  also have "300 * w + 700 * e = (300 + 700 * t) / 2 ^ 53"
    by (simp add: e_def w_def algebra_simps add_divide_distrib)
  finally show ?thesis
    by (simp add: p_def d_def q_def)
qed

lemma Math_round_mono: "x \<le> y \<Longrightarrow> Math_round x \<le> Math_round y"
  by (simp add: Math_round_def floor_mono)

text \<open>
  The savings of a non-empty input is an integer between the roundings of the exact
  percentage less the slack and plus the slack: it is the exactly rounded percentage
  unless the exact percentage is within the slack of a half.
\<close>

lemma savings_near_percentage:
  assumes "0 < n"
  shows "\<exists>k. savings c n = Num k
           \<and> Math_round (percentage c n - rounding_slack c n) \<le> k
           \<and> k \<le> Math_round (percentage c n + rounding_slack c n)"
proof -
  define t :: rat where "t = of_nat c / of_nat n"
  define p where "p = to_double (to_double (1 - to_double t) * 100)"
  have t0: "0 \<le> t" by (simp add: t_def)
  have s: "savings c n = Num (Math_round p)"
    using assms by (simp add: savings_def Let_def p_def t_def)
  have err: "\<bar>p - percentage c n\<bar> \<le> rounding_slack c n"
    using savings_double_error [OF t0]
    by (simp add: p_def percentage_def rounding_slack_def t_def)
  have lo: "percentage c n - rounding_slack c n \<le> p" using err by linarith
  have hi: "p \<le> percentage c n + rounding_slack c n" using err by linarith
  show ?thesis
    using s Math_round_mono [OF lo] Math_round_mono [OF hi] by blast
qed

lemma rounding_slack_nonneg: "0 \<le> rounding_slack c n"
  by (simp add: rounding_slack_def)

lemma savings_exact_away_from_half:
  assumes "0 < n"
    and "Math_round (percentage c n - rounding_slack c n) =
         Math_round (percentage c n + rounding_slack c n)"
  shows "savings c n = Num (Math_round (percentage c n))"
proof -
  from savings_near_percentage [OF assms(1), of c]
  obtain k where k: "savings c n = Num k"
    and lo: "Math_round (percentage c n - rounding_slack c n) \<le> k"
    and hi: "k \<le> Math_round (percentage c n + rounding_slack c n)"
    by blast
  have "Math_round (percentage c n - rounding_slack c n) \<le> Math_round (percentage c n)"
    using rounding_slack_nonneg [of c n] by (intro Math_round_mono) simp
  moreover have "Math_round (percentage c n) \<le> Math_round (percentage c n + rounding_slack c n)"
    using rounding_slack_nonneg [of c n] by (intro Math_round_mono) simp
  ultimately have "k = Math_round (percentage c n)"
    using lo hi assms(2) by linarith
  with k show ?thesis by simp
qed

text \<open>When the output is no longer than the input the slack is below \<open>10^-12\<close>.\<close>

lemma rounding_slack_small:
  assumes "c \<le> n" and "0 < n"
  shows "rounding_slack c n \<le> 1000 / 2 ^ 53" and "rounding_slack c n < 1 / 10 ^ 12"
proof -
  have "(of_nat c :: rat) / of_nat n \<le> 1"
    using assms by simp
  then show "rounding_slack c n \<le> 1000 / 2 ^ 53"
    by (simp add: rounding_slack_def)
  then show "rounding_slack c n < 1 / 10 ^ 12"
    by simp
qed

section \<open>Properties of the endpoints\<close>

subsection \<open>What a handler answers, by the outcome of the remote call\<close>

lemma handleCompressionError_statusCode:
  "statusCode (handleCompressionError e) \<in> {401, 429, 500}"
  by (simp add: handleCompressionError_def json_response_def)

lemma handleCompressionError_not_400: "statusCode (handleCompressionError e) \<noteq> 400"
  using handleCompressionError_statusCode [of e] by auto

lemma handleCompressionError_not_200: "statusCode (handleCompressionError e) \<noteq> 200"
  using handleCompressionError_statusCode [of e] by auto

lemma res_set_None: "res_set env hs xs = (None, r) \<Longrightarrow> r = hs @ xs"
proof (induction xs arbitrary: hs)
  case Nil
  then show ?case by simp
next
  case (Cons x xs)
  obtain name v where x: "x = (name, v)"
    by (cases x)
  from Cons.prems have step: "res_set env (hs @ [(name, v)]) xs = (None, r)"
    by (auto simp: x split: if_splits)
  from Cons.IH [OF step] show ?case
    by (simp add: x)
qed

lemma res_set_Some: "res_set env hs xs = (Some e, r) \<Longrightarrow> status e = JUndefined"
proof (induction xs arbitrary: hs)
  case Nil
  then show ?case by simp
next
  case (Cons x xs)
  obtain name v where x: "x = (name, v)"
    by (cases x)
  show ?case
  proof (cases "list_all valid_header_char v")
    case True
    with Cons.prems have "res_set env (hs @ [(name, v)]) xs = (Some e, r)"
      by (simp add: x)
    then show ?thesis by (rule Cons.IH)
  next
    case False
    with Cons.prems show ?thesis
      by (auto simp: x invalid_header_error_def)
  qed
qed

declare res_set.simps [simp del]

text \<open>
  The binary endpoint after a successful remote call: it answers 200 exactly when
  \<open>res.set\<close> has not thrown, and then the response has all five headers.
\<close>

lemma compress_binary_handler_200:
  assumes "tinify_toBuffer env (fst (compressImage_request env b opts)) s = (Inr out, s')"
    and "statusCode (fst (compress_binary_handler env (Some b) opts s)) = 200"
  shows "compress_binary_handler env (Some b) opts s =
     (\<lparr>statusCode = 200,
       headers =
         [(''Content-Type'', ''image/'' @ to_string env (js_or (format opts) (JStr ''png''))),
          (''X-Original-Size'', number_to_string env (Num (int (length b)))),
          (''X-Compressed-Size'', number_to_string env (Num (int (length out)))),
          (''X-Savings'', number_to_string env (savings (length out) (length b))),
          (''X-Compression-Count'',
             to_string env (js_or (tinify_compressionCount env s') (JNum (Num 0))))],
       body = Binary out\<rparr>, s')"
  using assms
  by (auto simp: compress_binary_handler_def compressImage_unfold
      handleCompressionError_not_200 split: prod.splits option.splits dest!: res_set_None)

lemma compress_binary_handler_header_error:
  assumes "tinify_toBuffer env (fst (compressImage_request env b opts)) s = (Inr out, s')"
    and "statusCode (fst (compress_binary_handler env (Some b) opts s)) \<noteq> 200"
  shows "statusCode (fst (compress_binary_handler env (Some b) opts s)) = 500"
    and "snd (compress_binary_handler env (Some b) opts s) = s'"
  using assms
  by (auto simp: compress_binary_handler_def compressImage_unfold handleCompressionError_def
      json_response_def strict_eq_def split: prod.splits option.splits dest!: res_set_Some)

lemma compress_binary_handler_failure:
  assumes "tinify_toBuffer env (fst (compressImage_request env b opts)) s = (Inl e, s')"
  shows "compress_binary_handler env (Some b) opts s = (handleCompressionError e, s')"
  using assms by (simp add: compress_binary_handler_def compressImage_unfold)

lemma compress_handler_success:
  assumes "truthy img" and "Buffer_from_base64 env img = Inr b"
    and "tinify_toBuffer env (fst (compressImage_request env b opts)) s = (Inr out, s')"
  shows "compress_handler env img opts s =
     (json_response 200
        [(''success'', JBool True),
         (''data'', JStr (base64_encode env out)),
         (''originalSize'', JNum (Num (int (length b)))),
         (''compressedSize'', JNum (Num (int (length out)))),
         (''savings'', JNum (savings (length out) (length b))),
         (''compressionCount'', tinify_compressionCount env s')], s')"
  using assms by (simp add: compress_handler_def compressImage_unfold)

lemma compress_handler_failure:
  assumes "truthy img" and "Buffer_from_base64 env img = Inr b"
    and "tinify_toBuffer env (fst (compressImage_request env b opts)) s = (Inl e, s')"
  shows "compress_handler env img opts s = (handleCompressionError e, s')"
  using assms by (simp add: compress_handler_def compressImage_unfold)

lemma compress_handler_type_error:
  assumes "truthy img" and "Buffer_from_base64 env img = Inl e"
  shows "compress_handler env img opts s = (handleCompressionError e, s)"
  using assms by (simp add: compress_handler_def)

lemma decimal_zero: "decimal 0 = ''0''"
  by code_simp

lemma to_string_zero: "to_string env (JNum (Num 0)) = ''0''"
  by (simp add: to_string_def decimal_zero)

lemma counting_toBuffer:
  "tinify_toBuffer (counting env) src (s, n) =
     (fst (tinify_toBuffer env src s), (snd (tinify_toBuffer env src s), Suc n))"
  by (simp add: counting_def split_beta)

lemma counting_codec [simp]:
  "Buffer_from_base64 (counting env) v = Buffer_from_base64 env v"
  by (simp add: Buffer_from_base64_def counting_def split: jsval.splits)

lemma sublist_500: "sublist ''500'' ''Monthly compression limit reached (500 for free tier)''"
proof -
  have "''Monthly compression limit reached (500 for free tier)'' =
        ''Monthly compression limit reached ('' @ ''500'' @ '' for free tier)''"
    by simp
  then show ?thesis
    unfolding sublist_def by blast
qed

lemma server_js_catch_eq: "server_js_catch error = handleCompressionError error"
  by (simp add: server_js_catch_def handleCompressionError_def)

lemma server_js_request_eq:
  "server_js_request env b (format opts) (width opts) (height opts) (background opts) =
   fst (compressImage_request env b opts)"
  by (simp add: server_js_request_def compressImage_request_def Let_def)

subsection \<open>Output format and content type\<close>

text \<open>
  The pipeline normalizes \<open>jpg\<close> in the conversion it requests, and returns the
  format unchanged; the binary endpoint prints the returned format into
  \<open>Content-Type\<close>.
\<close>

lemma convert_type_jpg:
  "format opts = JStr ''jpg'' \<Longrightarrow>
   filter is_convert (commands (fst (compressImage_request env b opts))) =
     [Convert ''image/jpeg'']"
  by (simp add: compressImage_request_commands js_or_def)

lemma content_type_is_returned_format:
  assumes "tinify_toBuffer env (fst (compressImage_request env b opts)) s = (Inr out, s')"
    and "statusCode (fst (compress_binary_handler env (Some b) opts s)) = 200"
  shows "header (fst (compress_binary_handler env (Some b) opts s)) ''Content-Type'' =
           Some (''image/'' @ to_string env (js_or (format opts) (JStr ''png'')))"
  by (simp add: compress_binary_handler_200 [OF assms] header_def)

lemma content_type_jpg:
  assumes "tinify_toBuffer env (fst (compressImage_request env b opts)) s = (Inr out, s')"
    and "statusCode (fst (compress_binary_handler env (Some b) opts s)) = 200"
    and "format opts = JStr ''jpg''"
  shows "header (fst (compress_binary_handler env (Some b) opts s)) ''Content-Type'' =
           Some ''image/jpg''"
  by (simp add: content_type_is_returned_format [OF assms(1,2)] assms(3) js_or_def)

text \<open>
  A format with a control character, here \<open>jp\<close>, the bell, \<open>g\<close>: \<open>res.set\<close> throws at
  \<open>Content-Type\<close>, and the stub's successful compression is answered 500 with no
  header set.
\<close>

lemma control_character_in_format:
  "(let (r, st) = compress_binary_handler stub_env (Some [1, 2, 3, 4])
                    \<lparr>format = JStr [CHR ''j'', CHR ''p'', CHR 0x07, CHR ''g''],
                       width = JUndefined, height = JUndefined,
                       background = JUndefined\<rparr> fresh
    in statusCode r = 500
     \<and> headers r = []
     \<and> json_field r ''error'' = Some (JStr ''Compression failed'')
     \<and> length (received st) = 1)"
  by code_simp

text \<open>
  C1. A binary upload with format \<open>jpg\<close>, run against the stub service: the
  conversion sent to the service is \<open>image/jpeg\<close>, and the response's
  \<open>Content-Type\<close> is \<open>image/jpg\<close>, since the pipeline returns the format as it
  was requested and the handler prints it into the header.
\<close>

theorem jpg_content_type_not_normalized:
  "(let (r, st) = compress_binary_handler stub_env (Some [1, 2, 3, 4])
                    \<lparr>format = JStr ''jpg'', width = JUndefined, height = JUndefined,
                       background = JUndefined\<rparr> fresh
    in statusCode r = 200
     \<and> map commands (received st) = [[Convert ''image/jpeg'', Transform (JStr ''white'')]]
     \<and> header r ''Content-Type'' = Some ''image/jpg'')"
  by code_simp

subsection \<open>Missing input\<close>

text \<open>
  C3. A JSON request with no \<open>image\<close> field and a binary request with no file are
  answered 400 with the error \<open>Missing image data\<close>, whatever the service is, and
  the state is the one the handler started in: nothing was compressed.
\<close>

theorem missing_input_rejected:
  "compress_handler env JUndefined opts s = (missing_image_json, s)
   \<and> compress_binary_handler env None opts s = (missing_image_binary, s)
   \<and> statusCode missing_image_json = 400
   \<and> json_field missing_image_json ''error'' = Some (JStr ''Missing image data'')
   \<and> statusCode missing_image_binary = 400
   \<and> json_field missing_image_binary ''error'' = Some (JStr ''Missing image data'')"
  by (simp add: compress_handler_def compress_binary_handler_def missing_image_json_def
      missing_image_binary_def json_response_def json_field_def)

text \<open>
  C3, at the stub service.
\<close>

theorem missing_input_rejected_witness:
  "compress_handler stub_env JUndefined
       \<lparr>format = JStr ''webp'', width = JUndefined, height = JUndefined,
          background = JUndefined\<rparr> fresh = (missing_image_json, fresh)
   \<and> compress_binary_handler stub_env None
       \<lparr>format = JStr ''webp'', width = JUndefined, height = JUndefined,
          background = JUndefined\<rparr> fresh = (missing_image_binary, fresh)
   \<and> statusCode missing_image_json = 400
   \<and> statusCode missing_image_binary = 400"
  using missing_input_rejected [of stub_env _ fresh]
  by blast

text \<open>
  C9. With the calls to the remote service counted: a request that either compression
  endpoint answers with 400 leaves the state and the number of calls as they were,
  so the response was produced before any call. A request without the \<open>image\<close>
  field, or without a file, is answered 400. (A binary request with a file makes one
  call.)
\<close>

theorem rejected_request_makes_no_backend_call:
  "(statusCode (fst (compress_handler (counting env) img opts (s, n))) = 400 \<longrightarrow>
      snd (compress_handler (counting env) img opts (s, n)) = (s, n))
   \<and> (statusCode (fst (compress_binary_handler (counting env) file opts (s, n))) = 400 \<longrightarrow>
      snd (compress_binary_handler (counting env) file opts (s, n)) = (s, n))
   \<and> (img = JUndefined \<longrightarrow>
      statusCode (fst (compress_handler (counting env) img opts (s, n))) = 400)
   \<and> (file = None \<longrightarrow>
      statusCode (fst (compress_binary_handler (counting env) file opts (s, n))) = 400)
   \<and> (file = Some b \<longrightarrow>
      snd (snd (compress_binary_handler (counting env) file opts (s, n))) = Suc n)"
proof -
  have js: "statusCode (fst (compress_handler (counting env) img opts (s, n))) = 400 \<Longrightarrow>
      snd (compress_handler (counting env) img opts (s, n)) = (s, n)"
    by (auto simp: compress_handler_def compressImage_unfold counting_toBuffer
        handleCompressionError_not_400 json_response_def
        split: if_splits sum.splits prod.splits)
  have bin: "statusCode (fst (compress_binary_handler (counting env) file opts (s, n))) = 400 \<Longrightarrow>
      snd (compress_binary_handler (counting env) file opts (s, n)) = (s, n)"
    by (auto simp: compress_binary_handler_def compressImage_unfold counting_toBuffer
        handleCompressionError_not_400
        split: option.splits sum.splits prod.splits)
  have js400: "img = JUndefined \<Longrightarrow>
      statusCode (fst (compress_handler (counting env) img opts (s, n))) = 400"
    by (simp add: compress_handler_def missing_image_json_def json_response_def)
  have bin400: "file = None \<Longrightarrow>
      statusCode (fst (compress_binary_handler (counting env) file opts (s, n))) = 400"
    by (simp add: compress_binary_handler_def missing_image_binary_def json_response_def)
  have called: "file = Some b \<Longrightarrow>
      snd (snd (compress_binary_handler (counting env) file opts (s, n))) = Suc n"
    by (auto simp: compress_binary_handler_def compressImage_unfold counting_toBuffer
        split: option.splits sum.splits prod.splits)
  from js bin js400 bin400 called show ?thesis by blast
qed

text \<open>
  C9, at the stub service, starting from no calls.
\<close>

theorem rejected_request_makes_no_backend_call_witness:
  "statusCode (fst (compress_handler (counting stub_env) JUndefined
       \<lparr>format = JStr ''jpg'', width = JNum (Num 800), height = JUndefined,
          background = JUndefined\<rparr> (fresh, 0))) = 400
   \<and> snd (compress_handler (counting stub_env) JUndefined
       \<lparr>format = JStr ''jpg'', width = JNum (Num 800), height = JUndefined,
          background = JUndefined\<rparr> (fresh, 0)) = (fresh, 0)
   \<and> statusCode (fst (compress_binary_handler (counting stub_env) None
       \<lparr>format = JStr ''jpg'', width = JNum (Num 800), height = JUndefined,
          background = JUndefined\<rparr> (fresh, 0))) = 400
   \<and> snd (compress_binary_handler (counting stub_env) None
       \<lparr>format = JStr ''jpg'', width = JNum (Num 800), height = JUndefined,
          background = JUndefined\<rparr> (fresh, 0)) = (fresh, 0)
   \<and> snd (snd (compress_binary_handler (counting stub_env) (Some [1, 2, 3, 4])
       \<lparr>format = JStr ''jpg'', width = JNum (Num 800), height = JUndefined,
          background = JUndefined\<rparr> (fresh, 0))) = Suc 0"
  using rejected_request_makes_no_backend_call [of stub_env JUndefined _ fresh 0 None]
        rejected_request_makes_no_backend_call [of stub_env JUndefined _ fresh 0
          "Some [1, 2, 3, 4]" "[1, 2, 3, 4]"]
  by simp

subsection \<open>Error classification\<close>

text \<open>
  C4. \<open>handleCompressionError\<close> answers an error of status 401 with 401 and
  \<open>Invalid API key\<close>; an error of status 429 with 429 and a message that names the
  limit of 500; any other error with 500, \<open>Compression failed\<close> and the error's own
  message. Both compression endpoints answer every failure of the pipeline, and the
  JSON endpoint also the failure to decode the image, through this classifier.
\<close>

theorem error_classification:
  "(status e = JNum (Num 401) \<longrightarrow>
      statusCode (handleCompressionError e) = 401
      \<and> json_field (handleCompressionError e) ''error'' = Some (JStr ''Invalid API key''))
   \<and> (status e = JNum (Num 429) \<longrightarrow>
      statusCode (handleCompressionError e) = 429
      \<and> json_field (handleCompressionError e) ''message'' =
          Some (JStr ''Monthly compression limit reached (500 for free tier)'')
      \<and> sublist ''500'' ''Monthly compression limit reached (500 for free tier)'')
   \<and> (status e \<noteq> JNum (Num 401) \<and> status e \<noteq> JNum (Num 429) \<longrightarrow>
      statusCode (handleCompressionError e) = 500
      \<and> json_field (handleCompressionError e) ''error'' = Some (JStr ''Compression failed'')
      \<and> json_field (handleCompressionError e) ''message'' = Some (message e))
   \<and> (fst (compressImage env b opts s) = Inl e \<longrightarrow>
      fst (compress_binary_handler env (Some b) opts s) = handleCompressionError e)
   \<and> (truthy img \<and> Buffer_from_base64 env img = Inr b
        \<and> fst (compressImage env b opts s) = Inl e \<longrightarrow>
      fst (compress_handler env img opts s) = handleCompressionError e)
   \<and> (truthy img \<and> Buffer_from_base64 env img = Inl e \<longrightarrow>
      fst (compress_handler env img opts s) = handleCompressionError e)"
proof -
  have c401: "status e = JNum (Num 401) \<Longrightarrow>
      statusCode (handleCompressionError e) = 401
      \<and> json_field (handleCompressionError e) ''error'' = Some (JStr ''Invalid API key'')"
    by (simp add: handleCompressionError_def json_response_def json_field_def strict_eq_def)
  have c429: "status e = JNum (Num 429) \<Longrightarrow>
      statusCode (handleCompressionError e) = 429
      \<and> json_field (handleCompressionError e) ''message'' =
          Some (JStr ''Monthly compression limit reached (500 for free tier)'')"
    by (simp add: handleCompressionError_def json_response_def json_field_def strict_eq_def)
  have c500: "status e \<noteq> JNum (Num 401) \<and> status e \<noteq> JNum (Num 429) \<Longrightarrow>
      statusCode (handleCompressionError e) = 500
      \<and> json_field (handleCompressionError e) ''error'' = Some (JStr ''Compression failed'')
      \<and> json_field (handleCompressionError e) ''message'' = Some (message e)"
    by (simp add: handleCompressionError_def json_response_def json_field_def strict_eq_def)
  have bin: "fst (compressImage env b opts s) = Inl e \<Longrightarrow>
      fst (compress_binary_handler env (Some b) opts s) = handleCompressionError e"
    by (auto simp: compress_binary_handler_def split: prod.splits sum.splits)
  have js: "truthy img \<and> Buffer_from_base64 env img = Inr b
        \<and> fst (compressImage env b opts s) = Inl e \<Longrightarrow>
      fst (compress_handler env img opts s) = handleCompressionError e"
    by (auto simp: compress_handler_def split: prod.splits sum.splits)
  have ty: "truthy img \<and> Buffer_from_base64 env img = Inl e \<Longrightarrow>
      fst (compress_handler env img opts s) = handleCompressionError e"
    by (simp add: compress_handler_def)
  from c401 c429 c500 bin js ty sublist_500 show ?thesis by blast
qed

text \<open>
  C4, at an error of each kind, and at the stub service with a key that is not valid
  and with an image that is not a string.
\<close>

theorem error_classification_witness:
  "statusCode (handleCompressionError unauthorized) = 401
   \<and> json_field (handleCompressionError unauthorized) ''error'' = Some (JStr ''Invalid API key'')
   \<and> statusCode (handleCompressionError
         \<lparr>status = JNum (Num 429), message = JStr ''Too many requests''\<rparr>) = 429
   \<and> statusCode (handleCompressionError
         \<lparr>status = JUndefined, message = JStr ''The first argument must be of type string''\<rparr>) = 500
   \<and> json_field (handleCompressionError
         \<lparr>status = JUndefined, message = JStr ''The first argument must be of type string''\<rparr>)
         ''message'' = Some (JStr ''The first argument must be of type string'')
   \<and> fst (compress_binary_handler stub_env (Some [1, 2, 3, 4])
         \<lparr>format = JUndefined, width = JUndefined, height = JUndefined,
            background = JUndefined\<rparr> (fresh\<lparr>key_valid := False\<rparr>))
       = handleCompressionError unauthorized
   \<and> fst (compress_handler stub_env (JStr ''AQIDBA=='')
         \<lparr>format = JUndefined, width = JUndefined, height = JUndefined,
            background = JUndefined\<rparr> (fresh\<lparr>key_valid := False\<rparr>))
       = handleCompressionError unauthorized
   \<and> fst (compress_handler stub_env (JNum (Num 5))
         \<lparr>format = JUndefined, width = JUndefined, height = JUndefined,
            background = JUndefined\<rparr> fresh)
       = handleCompressionError
           \<lparr>status = JUndefined, message = JStr ''The first argument must be of type string''\<rparr>"
proof -
  let ?opts = "\<lparr>format = JUndefined, width = JUndefined, height = JUndefined,
            background = JUndefined\<rparr>"
  let ?e429 = "\<lparr>status = JNum (Num 429), message = JStr ''Too many requests''\<rparr>"
  let ?ety = "\<lparr>status = JUndefined, message = JStr ''The first argument must be of type string''\<rparr>"
  have s401: "status unauthorized = JNum (Num 401)"
    by (simp add: unauthorized_def)
  have s429: "status ?e429 = JNum (Num 429)"
    by simp
  have sty: "status ?ety \<noteq> JNum (Num 401) \<and> status ?ety \<noteq> JNum (Num 429)"
    by simp
  have mty: "message ?ety = JStr ''The first argument must be of type string''"
    by simp
  have fails: "fst (compressImage stub_env [1, 2, 3, 4] ?opts (fresh\<lparr>key_valid := False\<rparr>))
      = Inl unauthorized"
    by (simp add: compressImage_unfold stub_env_def fresh_def)
  have tr: "truthy (JStr ''AQIDBA=='')" "truthy (JNum (Num 5))"
    by simp_all
  have dec: "Buffer_from_base64 stub_env (JStr ''AQIDBA=='') = Inr [1, 2, 3, 4]"
    by code_simp
  have ty: "Buffer_from_base64 stub_env (JNum (Num 5)) = Inl ?ety"
    by (simp add: Buffer_from_base64_def stub_env_def)
  note a = error_classification [where e = unauthorized and env = stub_env
      and b = "[1, 2, 3, 4]" and opts = ?opts and s = "fresh\<lparr>key_valid := False\<rparr>"
      and img = "JStr ''AQIDBA==''"]
  note b = error_classification [where e = ?e429 and env = stub_env
      and b = "[1, 2, 3, 4]" and opts = ?opts and s = fresh and img = JUndefined]
  note c = error_classification [where e = ?ety and env = stub_env
      and b = "[1, 2, 3, 4]" and opts = ?opts and s = fresh and img = "JNum (Num 5)"]
  from a s401 fails tr(1) dec
  have A: "statusCode (handleCompressionError unauthorized) = 401"
    "json_field (handleCompressionError unauthorized) ''error'' = Some (JStr ''Invalid API key'')"
    "fst (compress_binary_handler stub_env (Some [1, 2, 3, 4]) ?opts (fresh\<lparr>key_valid := False\<rparr>))
       = handleCompressionError unauthorized"
    "fst (compress_handler stub_env (JStr ''AQIDBA=='') ?opts (fresh\<lparr>key_valid := False\<rparr>))
       = handleCompressionError unauthorized"
    by blast+
  from b s429 have B: "statusCode (handleCompressionError ?e429) = 429"
    by blast
  from c sty tr(2) ty
  have C: "statusCode (handleCompressionError ?ety) = 500"
    "json_field (handleCompressionError ?ety) ''message'' = Some (message ?ety)"
    "fst (compress_handler stub_env (JNum (Num 5)) ?opts fresh) = handleCompressionError ?ety"
    by blast+
  from A B C show ?thesis
    unfolding mty by blast
qed

subsection \<open>Status\<close>

text \<open>
  C7. When the validation succeeds the status endpoint answers 200 with status
  \<open>ok\<close> and the compression count (0 while the count is unset); when it fails the
  endpoint answers 401 with \<open>Invalid API key\<close> and the error's message.
\<close>

theorem status_endpoint:
  "(tinify_validate env s = (None, s') \<longrightarrow>
      snd (status_handler env s) = s'
      \<and> statusCode (fst (status_handler env s)) = 200
      \<and> json_field (fst (status_handler env s)) ''status'' = Some (JStr ''ok'')
      \<and> json_field (fst (status_handler env s)) ''compressionCount'' =
          Some (js_or (tinify_compressionCount env s') (JNum (Num 0))))
   \<and> (tinify_validate env s = (Some e, s') \<longrightarrow>
      snd (status_handler env s) = s'
      \<and> statusCode (fst (status_handler env s)) = 401
      \<and> json_field (fst (status_handler env s)) ''error'' = Some (JStr ''Invalid API key'')
      \<and> json_field (fst (status_handler env s)) ''message'' = Some (message e))"
  by (simp add: status_handler_def json_response_def json_field_def)

text \<open>
  C7, at the stub service with a valid key and with a key that is not valid.
\<close>

theorem status_endpoint_witness:
  "tinify_validate stub_env fresh = (None, fresh)
   \<and> statusCode (fst (status_handler stub_env fresh)) = 200
   \<and> json_field (fst (status_handler stub_env fresh)) ''status'' = Some (JStr ''ok'')
   \<and> json_field (fst (status_handler stub_env fresh)) ''compressionCount'' = Some (JNum (Num 0))
   \<and> tinify_validate stub_env (fresh\<lparr>key_valid := False\<rparr>)
        = (Some unauthorized, fresh\<lparr>key_valid := False\<rparr>)
   \<and> statusCode (fst (status_handler stub_env (fresh\<lparr>key_valid := False\<rparr>))) = 401
   \<and> json_field (fst (status_handler stub_env (fresh\<lparr>key_valid := False\<rparr>))) ''message''
        = Some (JStr ''Credentials are invalid.'')"
proof -
  have ok: "tinify_validate stub_env fresh = (None, fresh)"
    by (simp add: stub_env_def fresh_def)
  have bad: "tinify_validate stub_env (fresh\<lparr>key_valid := False\<rparr>)
        = (Some unauthorized, fresh\<lparr>key_valid := False\<rparr>)"
    by (simp add: stub_env_def fresh_def)
  have cnt: "js_or (tinify_compressionCount stub_env fresh) (JNum (Num 0)) = JNum (Num 0)"
    by (simp add: stub_env_def fresh_def js_or_def)
  have msg: "message unauthorized = JStr ''Credentials are invalid.''"
    by (simp add: unauthorized_def)
  from status_endpoint [of stub_env fresh fresh]
       status_endpoint [of stub_env "fresh\<lparr>key_valid := False\<rparr>" _ unauthorized]
       ok bad
  show ?thesis
    unfolding cnt msg by simp
qed

subsection \<open>server.js and the shared pipeline\<close>

text \<open>
  C8. The handler of server.js builds the same source (same input, same commands
  in the same order) as \<open>compressImage\<close>, and for every service, request and state
  it gives the same response and the same state as the newer handler.
\<close>

theorem server_js_handler_equivalent:
  "server_js_request env b (format opts) (width opts) (height opts) (background opts) =
     fst (compressImage_request env b opts)
   \<and> server_js_compress_handler env img opts s = compress_handler env img opts s"
proof
  show "server_js_request env b (format opts) (width opts) (height opts) (background opts) =
     fst (compressImage_request env b opts)"
    by (rule server_js_request_eq)
next
  show "server_js_compress_handler env img opts s = compress_handler env img opts s"
    by (auto simp: server_js_compress_handler_def compress_handler_def compressImage_unfold
        server_js_request_eq server_js_catch_eq split: sum.splits prod.splits)
qed

text \<open>
  C8, at one request to the stub service.
\<close>

theorem server_js_handler_equivalent_witness:
  "server_js_compress_handler stub_env (JStr ''AQIDBA=='')
       \<lparr>format = JStr ''jpg'', width = JNum (Num 800), height = JUndefined,
          background = JUndefined\<rparr> fresh
   = compress_handler stub_env (JStr ''AQIDBA=='')
       \<lparr>format = JStr ''jpg'', width = JNum (Num 800), height = JUndefined,
          background = JUndefined\<rparr> fresh"
  using server_js_handler_equivalent [of stub_env]
  by blast

subsection \<open>Savings\<close>

text \<open>
  C5, as the code has it. After a successful compression of a non-empty buffer the
  savings is an integer \<open>k\<close>, a function of the two lengths alone, that lies between
  the roundings of the exact percentage less the slack and plus the slack (so it is
  the exactly rounded percentage unless that percentage is within the slack of a
  half). The binary endpoint, when it answers 200, reports \<open>k\<close> printed in
  \<open>X-Savings\<close>; the JSON endpoint reports the same \<open>k\<close> in the field \<open>savings\<close>.
\<close>

theorem savings_reported:
  assumes "tinify_toBuffer env (fst (compressImage_request env b opts)) s = (Inr out, s')"
    and "b \<noteq> []"
  shows "\<exists>k. savings (length out) (length b) = Num k
       \<and> Math_round (percentage (length out) (length b)
                       - rounding_slack (length out) (length b)) \<le> k
       \<and> k \<le> Math_round (percentage (length out) (length b)
                           + rounding_slack (length out) (length b))
       \<and> (statusCode (fst (compress_binary_handler env (Some b) opts s)) = 200 \<longrightarrow>
           header (fst (compress_binary_handler env (Some b) opts s)) ''X-Savings'' =
             Some (number_to_string env (Num k)))
       \<and> (truthy img \<and> Buffer_from_base64 env img = Inr b \<longrightarrow>
           json_field (fst (compress_handler env img opts s)) ''savings'' =
             Some (JNum (Num k)))"
proof -
  from \<open>b \<noteq> []\<close> have "0 < length b" by simp
  from savings_near_percentage [OF this, of "length out"]
  obtain k where k: "savings (length out) (length b) = Num k"
    and lo: "Math_round (percentage (length out) (length b)
                          - rounding_slack (length out) (length b)) \<le> k"
    and hi: "k \<le> Math_round (percentage (length out) (length b)
                              + rounding_slack (length out) (length b))"
    by blast
  have bin: "statusCode (fst (compress_binary_handler env (Some b) opts s)) = 200 \<Longrightarrow>
      header (fst (compress_binary_handler env (Some b) opts s)) ''X-Savings'' =
        Some (number_to_string env (Num k))"
    by (simp add: compress_binary_handler_200 [OF assms(1)] header_def k)
  have js: "truthy img \<and> Buffer_from_base64 env img = Inr b \<Longrightarrow>
      json_field (fst (compress_handler env img opts s)) ''savings'' = Some (JNum (Num k))"
    by (simp add: compress_handler_success [OF _ _ assms(1)] json_field_def json_response_def k)
  from k lo hi bin js show ?thesis by blast
qed

text \<open>
  C5, at the stub service: four bytes compressed to two are a saving of 50, in the
  header and in the field.
\<close>

theorem savings_reported_witness:
  "tinify_toBuffer stub_env (fst (compressImage_request stub_env [1, 2, 3, 4]
        \<lparr>format = JUndefined, width = JUndefined, height = JUndefined,
           background = JUndefined\<rparr>)) fresh
     = (Inr [1, 2], fresh\<lparr>received := [\<lparr>input = [1, 2, 3, 4], commands = []\<rparr>]\<rparr>)
   \<and> statusCode (fst (compress_binary_handler stub_env (Some [1, 2, 3, 4])
        \<lparr>format = JUndefined, width = JUndefined, height = JUndefined,
           background = JUndefined\<rparr> fresh)) = 200
   \<and> savings 2 4 = Num 50
   \<and> header (fst (compress_binary_handler stub_env (Some [1, 2, 3, 4])
        \<lparr>format = JUndefined, width = JUndefined, height = JUndefined,
           background = JUndefined\<rparr> fresh)) ''X-Savings'' = Some ''50''
   \<and> json_field (fst (compress_handler stub_env (JStr ''AQIDBA=='')
        \<lparr>format = JUndefined, width = JUndefined, height = JUndefined,
           background = JUndefined\<rparr> fresh)) ''savings'' = Some (JNum (Num 50))"
proof -
  let ?opts = "\<lparr>format = JUndefined, width = JUndefined, height = JUndefined,
           background = JUndefined\<rparr>"
  have run: "tinify_toBuffer stub_env (fst (compressImage_request stub_env [1, 2, 3, 4] ?opts)) fresh
     = (Inr [1, 2], fresh\<lparr>received := [\<lparr>input = [1, 2, 3, 4], commands = []\<rparr>]\<rparr>)"
    by code_simp
  have ok: "statusCode (fst (compress_binary_handler stub_env (Some [1, 2, 3, 4]) ?opts fresh)) = 200"
    by code_simp
  have ne: "[1, 2, 3, 4] \<noteq> ([] :: buffer)" by simp
  have tr: "truthy (JStr ''AQIDBA=='')" by simp
  have dec: "Buffer_from_base64 stub_env (JStr ''AQIDBA=='') = Inr [1, 2, 3, 4]"
    by code_simp
  have val: "savings 2 4 = Num 50" by code_simp
  have str: "number_to_string stub_env (Num 50) = ''50''" by code_simp
  from savings_reported [OF run ne, of "JStr ''AQIDBA==''"]
  obtain k where k: "savings (length [1, 2 :: 8 word]) (length [1, 2, 3, 4 :: 8 word]) = Num k"
    and bin: "statusCode (fst (compress_binary_handler stub_env (Some [1, 2, 3, 4]) ?opts fresh)) = 200 \<longrightarrow>
        header (fst (compress_binary_handler stub_env (Some [1, 2, 3, 4]) ?opts fresh)) ''X-Savings'' =
          Some (number_to_string stub_env (Num k))"
    and js: "truthy (JStr ''AQIDBA=='') \<and> Buffer_from_base64 stub_env (JStr ''AQIDBA=='') = Inr [1, 2, 3, 4] \<longrightarrow>
        json_field (fst (compress_handler stub_env (JStr ''AQIDBA=='') ?opts fresh)) ''savings'' =
          Some (JNum (Num k))"
    by blast
  have len: "length [1, 2 :: 8 word] = 2" "length [1, 2, 3, 4 :: 8 word] = 4"
    by simp_all
  from k val have k50: "k = 50" unfolding len by simp
  from bin ok have h: "header (fst (compress_binary_handler stub_env (Some [1, 2, 3, 4]) ?opts fresh))
      ''X-Savings'' = Some ''50''"
    by (simp add: k50 str)
  from js tr dec have j: "json_field (fst (compress_handler stub_env (JStr ''AQIDBA=='') ?opts fresh))
      ''savings'' = Some (JNum (Num 50))"
    by (simp add: k50)
  from run ok val h j show ?thesis by blast
qed

text \<open>
  C5 as stated fails where the exact percentage is at a half and the doubles fall
  below it: 17 bytes out of 40 are a saving of exactly 57.5 percent, which rounds to
  58, and the code reports 57 (\<open>17 / 40\<close> is the double just above 0.425, so
  \<open>(1 - 17 / 40) * 100\<close> is a double just below 57.5). Both endpoints report 57 for a
  40-byte image that the stub compresses to 17 bytes.
\<close>

theorem savings_not_exactly_rounded:
  "Math_round (percentage 17 40) = 58
   \<and> savings 17 40 = Num 57
   \<and> header (fst (compress_binary_handler stub_env (Some (replicate 40 0))
        \<lparr>format = JUndefined, width = JUndefined, height = JUndefined,
           background = JUndefined\<rparr> (fresh\<lparr>ratio := (17, 40)\<rparr>))) ''X-Savings'' = Some ''57''
   \<and> json_field (fst (compress_handler stub_env (JStr (replicate 54 CHR ''A''))
        \<lparr>format = JUndefined, width = JUndefined, height = JUndefined,
           background = JUndefined\<rparr> (fresh\<lparr>ratio := (17, 40)\<rparr>))) ''savings''
       = Some (JNum (Num 57))"
proof -
  have exact: "Math_round (percentage 17 40) = 58" by code_simp
  have code: "savings 17 40 = Num 57" by code_simp
  have bin: "header (fst (compress_binary_handler stub_env (Some (replicate 40 0))
        \<lparr>format = JUndefined, width = JUndefined, height = JUndefined,
           background = JUndefined\<rparr> (fresh\<lparr>ratio := (17, 40)\<rparr>))) ''X-Savings'' = Some ''57''"
    by code_simp
  have js: "json_field (fst (compress_handler stub_env (JStr (replicate 54 CHR ''A''))
        \<lparr>format = JUndefined, width = JUndefined, height = JUndefined,
           background = JUndefined\<rparr> (fresh\<lparr>ratio := (17, 40)\<rparr>))) ''savings''
       = Some (JNum (Num 57))"
    by code_simp
  from exact code bin js show ?thesis by blast
qed

subsection \<open>Metadata headers\<close>

text \<open>
  C10. A successful binary compression (the remote call succeeds and the response is
  200) answers with the headers \<open>Content-Type\<close>, \<open>X-Original-Size\<close>,
  \<open>X-Compressed-Size\<close>, \<open>X-Savings\<close> and \<open>X-Compression-Count\<close>; the last is
  \<open>compressionCount || 0\<close> printed, so \<open>0\<close> while the count is unset. The JSON
  endpoint's \<open>compressionCount\<close> field is the count itself, \<open>undefined\<close> while it is
  unset.
\<close>

theorem binary_metadata_headers:
  assumes "tinify_toBuffer env (fst (compressImage_request env b opts)) s = (Inr out, s')"
    and "statusCode (fst (compress_binary_handler env (Some b) opts s)) = 200"
  shows "map fst (headers (fst (compress_binary_handler env (Some b) opts s))) =
           [''Content-Type'', ''X-Original-Size'', ''X-Compressed-Size'', ''X-Savings'',
            ''X-Compression-Count'']
       \<and> header (fst (compress_binary_handler env (Some b) opts s)) ''X-Original-Size'' =
           Some (number_to_string env (Num (int (length b))))
       \<and> header (fst (compress_binary_handler env (Some b) opts s)) ''X-Compressed-Size'' =
           Some (number_to_string env (Num (int (length out))))
       \<and> header (fst (compress_binary_handler env (Some b) opts s)) ''X-Savings'' =
           Some (number_to_string env (savings (length out) (length b)))
       \<and> header (fst (compress_binary_handler env (Some b) opts s)) ''X-Compression-Count'' =
           Some (to_string env (js_or (tinify_compressionCount env s') (JNum (Num 0))))
       \<and> (tinify_compressionCount env s' = JUndefined \<longrightarrow>
           header (fst (compress_binary_handler env (Some b) opts s)) ''X-Compression-Count'' =
             Some ''0'')
       \<and> (truthy img \<and> Buffer_from_base64 env img = Inr b \<longrightarrow>
           json_field (fst (compress_handler env img opts s)) ''compressionCount'' =
             Some (tinify_compressionCount env s'))"
proof -
  let ?r = "fst (compress_binary_handler env (Some b) opts s)"
  note r = compress_binary_handler_200 [OF assms]
  have names: "map fst (headers ?r) =
      [''Content-Type'', ''X-Original-Size'', ''X-Compressed-Size'', ''X-Savings'',
       ''X-Compression-Count'']"
    by (simp add: r)
  have orig: "header ?r ''X-Original-Size'' = Some (number_to_string env (Num (int (length b))))"
    by (simp add: r header_def)
  have comp: "header ?r ''X-Compressed-Size'' = Some (number_to_string env (Num (int (length out))))"
    by (simp add: r header_def)
  have sav: "header ?r ''X-Savings'' = Some (number_to_string env (savings (length out) (length b)))"
    by (simp add: r header_def)
  have cnt: "header ?r ''X-Compression-Count'' =
      Some (to_string env (js_or (tinify_compressionCount env s') (JNum (Num 0))))"
    by (simp add: r header_def)
  have unset: "tinify_compressionCount env s' = JUndefined \<Longrightarrow>
      header ?r ''X-Compression-Count'' = Some ''0''"
    unfolding cnt by (simp add: js_or_def to_string_zero)
  have js: "truthy img \<and> Buffer_from_base64 env img = Inr b \<Longrightarrow>
      json_field (fst (compress_handler env img opts s)) ''compressionCount'' =
        Some (tinify_compressionCount env s')"
    by (simp add: compress_handler_success [OF _ _ assms(1)] json_field_def json_response_def)
  from names orig comp sav cnt unset js show ?thesis by blast
qed

text \<open>
  C10, at the stub service, whose count is unset.
\<close>

theorem binary_metadata_headers_witness:
  "statusCode (fst (compress_binary_handler stub_env (Some [1, 2, 3, 4])
        \<lparr>format = JUndefined, width = JUndefined, height = JUndefined,
           background = JUndefined\<rparr> fresh)) = 200
   \<and> tinify_compressionCount stub_env
       (fresh\<lparr>received := [\<lparr>input = [1, 2, 3, 4], commands = []\<rparr>]\<rparr>) = JUndefined
   \<and> map fst (headers (fst (compress_binary_handler stub_env (Some [1, 2, 3, 4])
        \<lparr>format = JUndefined, width = JUndefined, height = JUndefined,
           background = JUndefined\<rparr> fresh))) =
        [''Content-Type'', ''X-Original-Size'', ''X-Compressed-Size'', ''X-Savings'',
         ''X-Compression-Count'']
   \<and> header (fst (compress_binary_handler stub_env (Some [1, 2, 3, 4])
        \<lparr>format = JUndefined, width = JUndefined, height = JUndefined,
           background = JUndefined\<rparr> fresh)) ''X-Compression-Count'' = Some ''0''
   \<and> json_field (fst (compress_handler stub_env (JStr ''AQIDBA=='')
        \<lparr>format = JUndefined, width = JUndefined, height = JUndefined,
           background = JUndefined\<rparr> fresh)) ''compressionCount'' = Some JUndefined"
proof -
  let ?opts = "\<lparr>format = JUndefined, width = JUndefined, height = JUndefined,
           background = JUndefined\<rparr>"
  let ?s' = "fresh\<lparr>received := [\<lparr>input = [1, 2, 3, 4], commands = []\<rparr>]\<rparr>"
  have run: "tinify_toBuffer stub_env (fst (compressImage_request stub_env [1, 2, 3, 4] ?opts)) fresh
     = (Inr [1, 2], ?s')"
    by code_simp
  have ok: "statusCode (fst (compress_binary_handler stub_env (Some [1, 2, 3, 4]) ?opts fresh)) = 200"
    by code_simp
  have tr: "truthy (JStr ''AQIDBA=='')" by simp
  have dec: "Buffer_from_base64 stub_env (JStr ''AQIDBA=='') = Inr [1, 2, 3, 4]"
    by code_simp
  have unset: "tinify_compressionCount stub_env ?s' = JUndefined"
    by (simp add: stub_env_def fresh_def)
  note main = binary_metadata_headers [OF run ok, of "JStr ''AQIDBA==''"]
  from main have n: "map fst (headers (fst (compress_binary_handler stub_env (Some [1, 2, 3, 4])
      ?opts fresh))) =
        [''Content-Type'', ''X-Original-Size'', ''X-Compressed-Size'', ''X-Savings'',
         ''X-Compression-Count'']"
    by blast
  from main unset
  have h: "header (fst (compress_binary_handler stub_env (Some [1, 2, 3, 4]) ?opts fresh))
      ''X-Compression-Count'' = Some ''0''"
    by blast
  from main tr dec
  have j: "json_field (fst (compress_handler stub_env (JStr ''AQIDBA=='') ?opts fresh))
      ''compressionCount'' = Some (tinify_compressionCount stub_env ?s')"
    by blast
  from ok unset n h j [unfolded unset] show ?thesis by blast
qed

end
